theory Spec2Isabelle
  imports Complex_Main
begin

section \<open>Numbers and points\<close>

text \<open>
  The recognizer of \<^verbatim>\<open>src/lib/gestures/pinch-pan-gesture.ts\<close> computes with JavaScript
  numbers. They are modelled as real numbers: pointer coordinates are finite, and rounding,
  overflow, NaN and signed zero are outside the model. \<^verbatim>\<open>Math.hypot\<close> and
  \<^verbatim>\<open>Math.atan2\<close> are the mathematical functions they approximate.
\<close>

definition hypot :: "real \<Rightarrow> real \<Rightarrow> real" where
  "hypot dx dy = sqrt (dx * dx + dy * dy)"

definition atan2 :: "real \<Rightarrow> real \<Rightarrow> real" where
  "atan2 dy dx =
     (if 0 < dx then arctan (dy / dx)
      else if dx < 0 then (if 0 \<le> dy then arctan (dy / dx) + pi else arctan (dy / dx) - pi)
      else if 0 < dy then pi / 2
      else if dy < 0 then - (pi / 2)
      else 0)"

text \<open>\<^verbatim>\<open>MutablePoint\<close> and \<^verbatim>\<open>GesturePoint\<close>: the fields \<^verbatim>\<open>x\<close> and \<^verbatim>\<open>y\<close>.\<close>

record Point =
  x_coord :: real
  y_coord :: real

datatype Phase = Start | Move | End | Cancel

record Snapshot =
  phase :: Phase
  pointers_snap :: nat
  center_snap :: Point
  delta :: Point
  translation_snap :: Point
  pinchDistance :: "real option"
  scale :: real
  rotationRad :: real
  timestamp :: real

record Metrics =
  center :: Point
  distance :: "real option"
  angleRad :: "real option"

definition clampPointersCount :: "nat \<Rightarrow> nat" where
  "clampPointersCount count = (if count \<le> 0 then 0 else if count = 1 then 1 else 2)"

fun computeMetrics :: "Point list \<Rightarrow> Metrics" where
  "computeMetrics [] =
     \<lparr>center = \<lparr>x_coord = 0, y_coord = 0\<rparr>, distance = None, angleRad = None\<rparr>"
| "computeMetrics [p] =
     \<lparr>center = \<lparr>x_coord = x_coord p, y_coord = y_coord p\<rparr>, distance = None, angleRad = None\<rparr>"
| "computeMetrics (a # b # rest) =
     (let cx = (x_coord a + x_coord b) / 2;
          cy = (y_coord a + y_coord b) / 2;
          dx = x_coord b - x_coord a;
          dy = y_coord b - y_coord a
      in \<lparr>center = \<lparr>x_coord = cx, y_coord = cy\<rparr>,
          distance = Some (hypot dx dy),
          angleRad = Some (atan2 dy dx)\<rparr>)"

definition toReadonlyPoint :: "Point \<Rightarrow> Point" where
  "toReadonlyPoint p = \<lparr>x_coord = x_coord p, y_coord = y_coord p\<rparr>"

section \<open>The contact registry\<close>

text \<open>
  \<^verbatim>\<open>pointers\<close> is a JavaScript \<^verbatim>\<open>Map<number, MutablePoint>\<close>, which iterates in
  insertion order: an association list with distinct keys. \<^verbatim>\<open>set\<close> on a key that is present
  keeps the key's place, on a new key it appends; \<^verbatim>\<open>delete\<close> removes the entry.
\<close>

type_synonym Registry = "(int \<times> Point) list"

fun map_has :: "int \<Rightarrow> Registry \<Rightarrow> bool" where
  "map_has k [] = False"
| "map_has k ((k', v) # ps) = (if k' = k then True else map_has k ps)"

fun map_get :: "int \<Rightarrow> Registry \<Rightarrow> Point option" where
  "map_get k [] = None"
| "map_get k ((k', v) # ps) = (if k' = k then Some v else map_get k ps)"

fun map_set :: "int \<Rightarrow> Point \<Rightarrow> Registry \<Rightarrow> Registry" where
  "map_set k v [] = [(k, v)]"
| "map_set k v ((k', v') # ps) = (if k' = k then (k, v) # ps else (k', v') # map_set k v ps)"

fun map_delete :: "int \<Rightarrow> Registry \<Rightarrow> Registry" where
  "map_delete k [] = []"
| "map_delete k ((k', v) # ps) = (if k' = k then ps else (k', v) # map_delete k ps)"

text \<open>
  \<^verbatim>\<open>p.x = e.clientX; p.y = e.clientY\<close> on the object stored under a key: the entry is
  changed where it stands. Nothing else holds a reference to a stored point (centers are
  always built afresh), so no other value changes with it.
\<close>

fun assignPoint :: "int \<Rightarrow> real \<Rightarrow> real \<Rightarrow> Registry \<Rightarrow> Registry" where
  "assignPoint k cx cy [] = []"
| "assignPoint k cx cy ((k', v) # ps) =
     (if k' = k then (k', v\<lparr>x_coord := cx, y_coord := cy\<rparr>) # ps
      else (k', v) # assignPoint k cx cy ps)"

section \<open>The state of one attachment\<close>

text \<open>
  The variables that the closures of one call of \<^verbatim>\<open>attachPinchPanGesture\<close> share.
  \<^verbatim>\<open>performance.now()\<close> reads the environment: a clock is a function from the number of
  readings taken so far to the reading, and \<open>clockReads\<close> counts the readings of this
  attachment.
\<close>

record GestureState =
  pointers :: Registry
  active :: bool
  gestureStartCenter :: "Point option"
  gestureStartDistance :: "real option"
  gestureStartAngleRad :: "real option"
  lastCenter :: "Point option"
  translation :: Point
  clockReads :: nat

type_synonym Clock = "nat \<Rightarrow> real"

text \<open>
  The handlers are callbacks of the caller, each optional. A handler that is present is
  described by the snapshots on which its call throws; on the others it returns. What else a
  handler does is outside the model.
\<close>

record Handlers =
  onStart :: "(Snapshot \<Rightarrow> bool) option"
  onMove :: "(Snapshot \<Rightarrow> bool) option"
  onEnd :: "(Snapshot \<Rightarrow> bool) option"
  onCancel :: "(Snapshot \<Rightarrow> bool) option"

record Options =
  preventDefault :: "bool option"
  capturePointers :: "bool option"

text \<open>The destructuring defaults of line 109: an absent option is \<^verbatim>\<open>true\<close>.\<close>

definition optionOrTrue :: "bool option \<Rightarrow> bool" where
  "optionOrTrue b = (case b of None \<Rightarrow> True | Some v \<Rightarrow> v)"

record PointerEvent =
  pointerId :: int
  pointerType :: string
  clientX :: real
  clientY :: real

text \<open>
  What a listener does to its surroundings: \<^verbatim>\<open>e.preventDefault()\<close>,
  \<^verbatim>\<open>target.setPointerCapture(id)\<close> (whose exception is caught and dropped), a snapshot
  built by \<^verbatim>\<open>emit\<close> and offered to the handler of its phase, and the exception of a
  handler, which nothing in the recognizer catches: it ends the listener and goes to the
  host.
\<close>

datatype Effect = PreventDefault | SetPointerCapture int | Emit Snapshot | Uncaught

text \<open>\<^verbatim>\<open>if (preventDefault) e.preventDefault();\<close>\<close>

definition callPreventDefault :: "Options \<Rightarrow> Effect list" where
  "callPreventDefault opts = (if optionOrTrue (preventDefault opts) then [PreventDefault] else [])"

text \<open>\<^verbatim>\<open>if (capturePointers) { try { target.setPointerCapture(e.pointerId); } catch {} }\<close>\<close>

definition callSetPointerCapture :: "Options \<Rightarrow> PointerEvent \<Rightarrow> Effect list" where
  "callSetPointerCapture opts e =
     (if optionOrTrue (capturePointers opts) then [SetPointerCapture (pointerId e)] else [])"

text \<open>
  The last four lines of \<^verbatim>\<open>emit\<close> (167 to 170) call the handler of the snapshot's phase,
  if there is one, outside any \<^verbatim>\<open>try\<close>.
\<close>

fun handlerOf :: "Handlers \<Rightarrow> Phase \<Rightarrow> (Snapshot \<Rightarrow> bool) option" where
  "handlerOf h Start = onStart h"
| "handlerOf h Move = onMove h"
| "handlerOf h End = onEnd h"
| "handlerOf h Cancel = onCancel h"

definition handlerInvoked :: "Handlers \<Rightarrow> Snapshot \<Rightarrow> bool" where
  "handlerInvoked h snapshot = (handlerOf h (phase snapshot) \<noteq> None)"

definition handlerThrows :: "Handlers \<Rightarrow> Snapshot \<Rightarrow> bool" where
  "handlerThrows h snapshot =
     (case handlerOf h (phase snapshot) of None \<Rightarrow> False | Some throws \<Rightarrow> throws snapshot)"

definition callHandler :: "Handlers \<Rightarrow> Snapshot \<Rightarrow> Effect list" where
  "callHandler h snapshot = Emit snapshot # (if handlerThrows h snapshot then [Uncaught] else [])"

fun handlerCalls :: "Handlers \<Rightarrow> Effect list \<Rightarrow> Snapshot list" where
  "handlerCalls h [] = []"
| "handlerCalls h (Emit snapshot # es) =
     (if handlerInvoked h snapshot then snapshot # handlerCalls h es else handlerCalls h es)"
| "handlerCalls h (e # es) = handlerCalls h es"

fun snapshots :: "Effect list \<Rightarrow> Snapshot list" where
  "snapshots [] = []"
| "snapshots (Emit snapshot # es) = snapshot # snapshots es"
| "snapshots (e # es) = snapshots es"

text \<open>
  \<open>emit\<close> is the body of \<^verbatim>\<open>emit\<close> up to line 165: it builds the snapshot and updates the
  session. The call of the handler that follows is \<open>callHandler\<close>, placed by each listener
  where it calls \<^verbatim>\<open>emit\<close>; when the handler throws, the listener ends there.
\<close>

definition emit :: "Clock \<Rightarrow> Phase \<Rightarrow> Metrics \<Rightarrow> GestureState \<Rightarrow> GestureState \<times> Snapshot" where
  "emit now ph metrics s =
     (let timestamp' = now (clockReads s);
          c = center metrics;
          lc = (case lastCenter s of None \<Rightarrow> \<lparr>x_coord = x_coord c, y_coord = y_coord c\<rparr> | Some p \<Rightarrow> p);
          gsc = (case gestureStartCenter s of None \<Rightarrow> \<lparr>x_coord = x_coord c, y_coord = y_coord c\<rparr> | Some p \<Rightarrow> p);
          delta' = \<lparr>x_coord = x_coord c - x_coord lc, y_coord = y_coord c - y_coord lc\<rparr>;
          translation' = \<lparr>x_coord = x_coord c - x_coord gsc, y_coord = y_coord c - y_coord gsc\<rparr>;
          hasPinch = (distance metrics \<noteq> None);
          gsd = (if hasPinch \<and> gestureStartDistance s = None
                 then Some (case distance metrics of Some d \<Rightarrow> d | None \<Rightarrow> 0)
                 else gestureStartDistance s);
          gsa = (if hasPinch \<and> gestureStartAngleRad s = None
                 then Some (case angleRad metrics of Some a \<Rightarrow> a | None \<Rightarrow> 0)
                 else gestureStartAngleRad s);
          scale' = (case gsd of
                      Some d0 \<Rightarrow>
                        if hasPinch \<and> d0 \<noteq> 0 \<and> 0 < d0
                        then (case distance metrics of Some d \<Rightarrow> d | None \<Rightarrow> d0) / d0
                        else 1
                    | None \<Rightarrow> 1);
          rotationRad' = (case (gsa, angleRad metrics) of
                            (Some a0, Some a) \<Rightarrow> if hasPinch then a - a0 else 0
                          | _ \<Rightarrow> 0);
          snapshot = \<lparr>phase = ph,
                      pointers_snap = clampPointersCount (length (pointers s)),
                      center_snap = toReadonlyPoint c,
                      delta = toReadonlyPoint delta',
                      translation_snap = toReadonlyPoint translation',
                      pinchDistance = distance metrics,
                      scale = scale',
                      rotationRad = rotationRad',
                      timestamp = timestamp'\<rparr>
      in (s\<lparr>gestureStartCenter := Some gsc,
            gestureStartDistance := gsd,
            gestureStartAngleRad := gsa,
            lastCenter := Some \<lparr>x_coord = x_coord c, y_coord = y_coord c\<rparr>,
            translation := translation',
            clockReads := Suc (clockReads s)\<rparr>,
          snapshot))"

definition resetGestureState :: "GestureState \<Rightarrow> GestureState" where
  "resetGestureState s =
     s\<lparr>gestureStartCenter := None,
       gestureStartDistance := None,
       gestureStartAngleRad := None,
       lastCenter := None,
       translation := \<lparr>x_coord = 0, y_coord = 0\<rparr>\<rparr>"

definition getActivePoints :: "GestureState \<Rightarrow> Point list" where
  "getActivePoints s = map snd (pointers s)"

text \<open>
  The assignments that re-anchor the session, written out twice in the source (lines 212 to
  219 in \<^verbatim>\<open>onPointerDown\<close>, lines 266 to 270 in \<^verbatim>\<open>endLike\<close>).
\<close>

definition rebase :: "Metrics \<Rightarrow> GestureState \<Rightarrow> GestureState" where
  "rebase m s =
     s\<lparr>gestureStartCenter := Some \<lparr>x_coord = x_coord (center m), y_coord = y_coord (center m)\<rparr>,
       lastCenter := Some \<lparr>x_coord = x_coord (center m), y_coord = y_coord (center m)\<rparr>,
       translation := \<lparr>x_coord = 0, y_coord = 0\<rparr>,
       gestureStartDistance := distance m,
       gestureStartAngleRad := angleRad m\<rparr>"

definition trackedType :: "string \<Rightarrow> bool" where
  "trackedType t = (t = ''touch'' \<or> t = ''pen'' \<or> t = ''mouse'')"

definition onPointerDown :: "Clock \<Rightarrow> Handlers \<Rightarrow> Options \<Rightarrow> PointerEvent \<Rightarrow> GestureState \<Rightarrow> GestureState \<times> Effect list" where
  "onPointerDown now h opts e s =
     (let eff1 = callPreventDefault opts;
          s1 = (if trackedType (pointerType e)
                then s\<lparr>pointers := map_set (pointerId e) \<lparr>x_coord = clientX e, y_coord = clientY e\<rparr> (pointers s)\<rparr>
                else s);
          eff2 = callSetPointerCapture opts e;
          metrics = computeMetrics (getActivePoints s1);
          s2 = (if \<not> active s1 then resetGestureState (s1\<lparr>active := True\<rparr>) else s1)
      in if length (pointers s2) = 1 \<or> length (pointers s2) = 2
         then (let (s3, snapshot) = emit now Start metrics (rebase metrics s2)
               in (s3, eff1 @ eff2 @ callHandler h snapshot))
         else (s2, eff1 @ eff2))"

definition onPointerMove :: "Clock \<Rightarrow> Handlers \<Rightarrow> Options \<Rightarrow> PointerEvent \<Rightarrow> GestureState \<Rightarrow> GestureState \<times> Effect list" where
  "onPointerMove now h opts e s =
     (if \<not> map_has (pointerId e) (pointers s) then (s, [])
      else
        let eff1 = callPreventDefault opts
        in case map_get (pointerId e) (pointers s) of
             None \<Rightarrow> (s, eff1)
           | Some p \<Rightarrow>
               (let s1 = s\<lparr>pointers := assignPoint (pointerId e) (clientX e) (clientY e) (pointers s)\<rparr>;
                    metrics = computeMetrics (getActivePoints s1)
                in if \<not> active s1 then (s1, eff1)
                   else if length (pointers s1) = 1 \<or> length (pointers s1) = 2
                   then (let (s2, snapshot) = emit now Move metrics s1
                         in (s2, eff1 @ callHandler h snapshot))
                   else (s1, eff1)))"

definition endLike :: "Clock \<Rightarrow> Handlers \<Rightarrow> Options \<Rightarrow> Phase \<Rightarrow> PointerEvent \<Rightarrow> GestureState \<Rightarrow> GestureState \<times> Effect list" where
  "endLike now h opts ph e s =
     (if \<not> map_has (pointerId e) (pointers s) then (s, [])
      else
        let eff1 = callPreventDefault opts;
            s1 = s\<lparr>pointers := map_delete (pointerId e) (pointers s)\<rparr>;
            remaining = getActivePoints s1;
            metrics = (if 0 < length remaining then computeMetrics remaining
                       else \<lparr>center = (case lastCenter s1 of
                                         Some lc \<Rightarrow> \<lparr>x_coord = x_coord lc, y_coord = y_coord lc\<rparr>
                                       | None \<Rightarrow> \<lparr>x_coord = clientX e, y_coord = clientY e\<rparr>),
                             distance = None, angleRad = None\<rparr>);
            (s2, snapshot) = emit now ph metrics s1
        in if handlerThrows h snapshot
           then (s2, eff1 @ callHandler h snapshot)
           else if length (pointers s2) = 1 \<or> length (pointers s2) = 2
           then (let m = computeMetrics (getActivePoints s2);
                     (s3, snapshot') = emit now Start m (rebase m s2)
                 in (s3, eff1 @ callHandler h snapshot @ callHandler h snapshot'))
           else if length (pointers s2) = 0
           then (resetGestureState (s2\<lparr>active := False\<rparr>), eff1 @ callHandler h snapshot)
           else (s2, eff1 @ callHandler h snapshot))"

definition onPointerUp :: "Clock \<Rightarrow> Handlers \<Rightarrow> Options \<Rightarrow> PointerEvent \<Rightarrow> GestureState \<Rightarrow> GestureState \<times> Effect list" where
  "onPointerUp now h opts = endLike now h opts End"

definition onPointerCancel :: "Clock \<Rightarrow> Handlers \<Rightarrow> Options \<Rightarrow> PointerEvent \<Rightarrow> GestureState \<Rightarrow> GestureState \<times> Effect list" where
  "onPointerCancel now h opts = endLike now h opts Cancel"

section \<open>Attaching and detaching\<close>

text \<open>
  The target element, as far as \<^verbatim>\<open>attachPinchPanGesture\<close> touches it: its inline
  \<^verbatim>\<open>style.touchAction\<close> and the event types for which a listener of this attachment is
  registered. An event of a type with no listener reaches no code of the recognizer.
\<close>

datatype EventType = Pointerdown | Pointermove | Pointerup | Pointercancel

record Target =
  touchAction :: string
  listeners :: "EventType set"

record Attachment =
  target :: Target
  handlers :: Handlers
  options :: Options
  gesture :: GestureState

datatype Error = TypeError

definition initialGestureState :: GestureState where
  "initialGestureState =
     \<lparr>pointers = [], active = False, gestureStartCenter = None, gestureStartDistance = None,
      gestureStartAngleRad = None, lastCenter = None,
      translation = \<lparr>x_coord = 0, y_coord = 0\<rparr>, clockReads = 0\<rparr>"

text \<open>
  The parameter \<^verbatim>\<open>target: HTMLElement\<close> admits no missing element. Called from untyped
  code with \<^verbatim>\<open>null\<close> or \<^verbatim>\<open>undefined\<close>, the first use of the target,
  \<^verbatim>\<open>target.style\<close> on line 286, throws a \<^verbatim>\<open>TypeError\<close>: the function has no branch for
  that case.
\<close>

definition attached :: "Target \<Rightarrow> Handlers \<Rightarrow> Options \<Rightarrow> Attachment" where
  "attached t h opts =
     \<lparr>target =
        t\<lparr>touchAction := (if touchAction t = [] then ''none'' else touchAction t),
          listeners := insert Pointercancel (insert Pointerup
                         (insert Pointermove (insert Pointerdown (listeners t))))\<rparr>,
      handlers = h,
      options = opts,
      gesture = initialGestureState\<rparr>"

definition attachPinchPanGesture :: "Target option \<Rightarrow> Handlers \<Rightarrow> Options \<Rightarrow> Error + Attachment" where
  "attachPinchPanGesture tgt h opts =
     (case tgt of
        None \<Rightarrow> Inl TypeError
      | Some t \<Rightarrow> Inr (attached t h opts))"

text \<open>The function that \<^verbatim>\<open>attachPinchPanGesture\<close> returns (lines 293 to 301).\<close>

definition detach :: "Attachment \<Rightarrow> Attachment" where
  "detach a =
     a\<lparr>target := (target a)\<lparr>listeners :=
                     listeners (target a) - {Pointerdown} - {Pointermove} - {Pointerup} - {Pointercancel}\<rparr>,
       gesture := resetGestureState ((gesture a)\<lparr>pointers := [], active := False\<rparr>)\<rparr>"

text \<open>
  The host delivers one notification to the target. An exception that leaves a listener is
  reported by the host and goes no further: the next notification is delivered as usual.
\<close>

definition listenerOf :: "EventType \<Rightarrow> Clock \<Rightarrow> Handlers \<Rightarrow> Options \<Rightarrow> PointerEvent \<Rightarrow> GestureState \<Rightarrow> GestureState \<times> Effect list" where
  "listenerOf k = (case k of
                     Pointerdown \<Rightarrow> onPointerDown
                   | Pointermove \<Rightarrow> onPointerMove
                   | Pointerup \<Rightarrow> onPointerUp
                   | Pointercancel \<Rightarrow> onPointerCancel)"

definition dispatchEvent :: "Clock \<Rightarrow> EventType \<times> PointerEvent \<Rightarrow> Attachment \<Rightarrow> Attachment \<times> Effect list" where
  "dispatchEvent now n a =
     (if fst n \<in> listeners (target a)
      then (let (s, effs) = listenerOf (fst n) now (handlers a) (options a) (snd n) (gesture a)
            in (a\<lparr>gesture := s\<rparr>, effs))
      else (a, []))"

fun run :: "Clock \<Rightarrow> (EventType \<times> PointerEvent) list \<Rightarrow> Attachment \<Rightarrow> Attachment \<times> Effect list" where
  "run now [] a = (a, [])"
| "run now (n # ns) a =
     (let (a1, effs1) = dispatchEvent now n a;
          (a2, effs2) = run now ns a1
      in (a2, effs1 @ effs2))"

text \<open>
  The second effect of the hook \<^verbatim>\<open>usePinchPanGesture\<close>: with an empty target reference it
  returns at once, with no cleanup function (\<open>None\<close>); otherwise it attaches, and its cleanup
  is the detach function of that attachment. The four handlers it passes are always present
  and forward to the handler of the same name in \<^verbatim>\<open>handlersRef.current\<close>, if there is one;
  \<open>h\<close> stands for the handlers that the reference holds.
\<close>

definition forwardingHandlers :: "Handlers \<Rightarrow> Handlers" where
  "forwardingHandlers h =
     \<lparr>onStart = Some (\<lambda>s. case onStart h of None \<Rightarrow> False | Some throws \<Rightarrow> throws s),
      onMove = Some (\<lambda>s. case onMove h of None \<Rightarrow> False | Some throws \<Rightarrow> throws s),
      onEnd = Some (\<lambda>s. case onEnd h of None \<Rightarrow> False | Some throws \<Rightarrow> throws s),
      onCancel = Some (\<lambda>s. case onCancel h of None \<Rightarrow> False | Some throws \<Rightarrow> throws s)\<rparr>"

definition usePinchPanGesture_effect :: "Target option \<Rightarrow> Handlers \<Rightarrow> Options \<Rightarrow> Error + Attachment option" where
  "usePinchPanGesture_effect targetRef h opts =
     (case targetRef of
        None \<Rightarrow> Inr None
      | Some el \<Rightarrow>
          (case attachPinchPanGesture (Some el) (forwardingHandlers h) opts of
             Inl err \<Rightarrow> Inl err
           | Inr a \<Rightarrow> Inr (Some a)))"

section \<open>Notification sequences\<close>

text \<open>At most one contact is in the registry before, between and after the notifications.\<close>

fun atMostOneLive :: "Clock \<Rightarrow> (EventType \<times> PointerEvent) list \<Rightarrow> Attachment \<Rightarrow> bool" where
  "atMostOneLive now [] a = (length (pointers (gesture a)) \<le> 1)"
| "atMostOneLive now (n # ns) a =
     (length (pointers (gesture a)) \<le> 1 \<and> atMostOneLive now ns (fst (dispatchEvent now n a)))"

text \<open>Concrete inputs for the examples below.\<close>

definition touchAt :: "int \<Rightarrow> real \<Rightarrow> real \<Rightarrow> PointerEvent" where
  "touchAt i cx cy = \<lparr>pointerId = i, pointerType = ''touch'', clientX = cx, clientY = cy\<rparr>"

definition tickClock :: Clock where
  "tickClock k = real k"

definition plainTarget :: Target where
  "plainTarget = \<lparr>touchAction = [], listeners = {}\<rparr>"

text \<open>Four handlers that always return; the same with an end handler that always throws.\<close>

definition allHandlers :: Handlers where
  "allHandlers =
     \<lparr>onStart = Some (\<lambda>snapshot. False), onMove = Some (\<lambda>snapshot. False),
      onEnd = Some (\<lambda>snapshot. False), onCancel = Some (\<lambda>snapshot. False)\<rparr>"

definition throwingEndHandlers :: Handlers where
  "throwingEndHandlers = allHandlers\<lparr>onEnd := Some (\<lambda>snapshot. True)\<rparr>"

definition moveOnlyHandlers :: Handlers where
  "moveOnlyHandlers =
     \<lparr>onStart = None, onMove = Some (\<lambda>snapshot. False), onEnd = None, onCancel = None\<rparr>"

definition defaultOptions :: Options where
  "defaultOptions = \<lparr>preventDefault = None, capturePointers = None\<rparr>"

definition freshAttachment :: Attachment where
  "freshAttachment = attached plainTarget allHandlers defaultOptions"

definition panTrace :: "(EventType \<times> PointerEvent) list" where
  "panTrace = [(Pointerdown, touchAt 1 0 0), (Pointermove, touchAt 1 5 5), (Pointerup, touchAt 1 5 5)]"

definition pinchTrace :: "(EventType \<times> PointerEvent) list" where
  "pinchTrace = [(Pointerdown, touchAt 1 0 0), (Pointerdown, touchAt 2 100 0)]"

definition threeTrace :: "(EventType \<times> PointerEvent) list" where
  "threeTrace =
     [(Pointerdown, touchAt 1 0 0), (Pointerdown, touchAt 2 100 0), (Pointerdown, touchAt 3 50 50)]"

definition stretchTrace :: "(EventType \<times> PointerEvent) list" where
  "stretchTrace =
     [(Pointerdown, touchAt 1 0 0), (Pointerdown, touchAt 2 100 0), (Pointermove, touchAt 2 200 0)]"

definition coincidentTrace :: "(EventType \<times> PointerEvent) list" where
  "coincidentTrace =
     [(Pointerdown, touchAt 1 5 5), (Pointerdown, touchAt 2 5 5), (Pointermove, touchAt 2 8 5)]"

definition quarterTurnTrace :: "(EventType \<times> PointerEvent) list" where
  "quarterTurnTrace =
     [(Pointerdown, touchAt 1 0 0), (Pointerdown, touchAt 2 100 0), (Pointermove, touchAt 2 0 100)]"

definition wrapTrace :: "(EventType \<times> PointerEvent) list" where
  "wrapTrace =
     [(Pointerdown, touchAt 1 0 0), (Pointerdown, touchAt 2 (- 100) 0), (Pointermove, touchAt 2 0 (- 100))]"

text \<open>
  The anchor distance, when defined, is not negative. Every anchor is a value of
  \<^verbatim>\<open>Math.hypot\<close>, so this holds in every state that the recognizer reaches.
\<close>

definition anchorNonneg :: "GestureState \<Rightarrow> bool" where
  "anchorNonneg s = (case gestureStartDistance s of None \<Rightarrow> True | Some d0 \<Rightarrow> 0 \<le> d0)"

definition panMoveTrace :: "(EventType \<times> PointerEvent) list" where
  "panMoveTrace = [(Pointerdown, touchAt 1 0 0), (Pointermove, touchAt 1 10 0)]"

text \<open>
  A contact whose device type the browser cannot tell: its \<^verbatim>\<open>pointerType\<close> is the empty
  string.
\<close>

definition unknownDown :: PointerEvent where
  "unknownDown = \<lparr>pointerId = 7, pointerType = [], clientX = 50, clientY = 50\<rparr>"

text \<open>A snapshot with its clock reading blanked, and a second clock that starts later.\<close>

definition withoutTimestamp :: "Snapshot \<Rightarrow> Snapshot" where
  "withoutTimestamp snap = snap\<lparr>timestamp := 0\<rparr>"





definition throwingAttachment :: Attachment where
  "throwingAttachment = attached plainTarget throwingEndHandlers defaultOptions"

section \<open>Basic facts\<close>

lemmas model_defs =
  pinchTrace_def threeTrace_def panTrace_def stretchTrace_def coincidentTrace_def quarterTurnTrace_def
  wrapTrace_def panMoveTrace_def unknownDown_def touchAt_def tickClock_def plainTarget_def allHandlers_def defaultOptions_def freshAttachment_def
  attached_def initialGestureState_def dispatchEvent_def listenerOf_def
  onPointerDown_def onPointerMove_def onPointerUp_def onPointerCancel_def endLike_def emit_def
  rebase_def resetGestureState_def getActivePoints_def trackedType_def optionOrTrue_def
  callPreventDefault_def callSetPointerCapture_def clampPointersCount_def toReadonlyPoint_def
  callHandler_def handlerThrows_def throwingEndHandlers_def throwingAttachment_def moveOnlyHandlers_def
  Let_def

lemma hypot_nonneg: "0 \<le> hypot dx dy"
  by (simp add: hypot_def)

lemma hypot_eq_sqrt_squares: "hypot dx dy = sqrt (dx\<^sup>2 + dy\<^sup>2)"
  by (simp add: hypot_def power2_eq_square)

lemma hypot_zero_right: "hypot dx 0 = \<bar>dx\<bar>"
  by (simp add: hypot_def)

lemma hypot_zero_left: "hypot 0 dy = \<bar>dy\<bar>"
  by (simp add: hypot_def)

text \<open>The model of \<^verbatim>\<open>Math.atan2\<close> has the range \<open>(-\<pi>, \<pi>]\<close>.\<close>

lemma atan2_range: "- pi < atan2 dy dx \<and> atan2 dy dx \<le> pi"
proof -
  have lo: "- (pi / 2) < arctan (dy / dx)" and hi: "arctan (dy / dx) < pi / 2"
    using arctan_bounded [of "dy / dx"] by auto
  have pos: "0 < pi" by simp
  consider (right) "0 < dx" | (upper) "dx < 0" "0 \<le> dy" | (lower) "dx < 0" "dy < 0"
    | (axis) "dx = 0"
    by linarith
  then show ?thesis
  proof cases
    case right
    then have "atan2 dy dx = arctan (dy / dx)" by (simp add: atan2_def)
    with lo hi pos show ?thesis by linarith
  next
    case upper
    then have "dy / dx \<le> 0" by (simp add: divide_nonneg_neg)
    then have "arctan (dy / dx) \<le> 0" by (simp add: arctan_le_zero_iff)
    moreover from upper have "atan2 dy dx = arctan (dy / dx) + pi" by (simp add: atan2_def)
    ultimately show ?thesis using lo pos by linarith
  next
    case lower
    then have "0 < dy / dx" by (simp add: divide_neg_neg)
    then have "0 < arctan (dy / dx)" by (simp add: zero_less_arctan_iff)
    moreover from lower have "atan2 dy dx = arctan (dy / dx) - pi" by (simp add: atan2_def)
    ultimately show ?thesis using hi pos by linarith
  next
    case axis
    then have "atan2 dy dx = pi / 2 \<or> atan2 dy dx = - (pi / 2) \<or> atan2 dy dx = 0"
      by (simp add: atan2_def)
    with pos show ?thesis by linarith
  qed
qed

lemma hypot_scaled: "dx \<noteq> 0 \<Longrightarrow> hypot dx dy = \<bar>dx\<bar> * sqrt (1 + (dy / dx)\<^sup>2)"
proof -
  assume nz: "dx \<noteq> 0"
  have "dx * dx + dy * dy = dx\<^sup>2 * (1 + (dy / dx)\<^sup>2)"
    using nz by (simp add: power2_eq_square field_simps)
  then show ?thesis
    by (simp add: hypot_def real_sqrt_mult)
qed

text \<open>Distance and angle are the polar coordinates of the difference vector.\<close>

lemma atan2_polar:
  "dx = hypot dx dy * cos (atan2 dy dx) \<and> dy = hypot dx dy * sin (atan2 dy dx)"
proof (cases "dx = 0")
  case True
  then show ?thesis by (simp add: atan2_def hypot_def)
next
  case False
  have s: "0 < sqrt (1 + (dy / dx)\<^sup>2)"
    by (simp add: add_pos_nonneg)
  show ?thesis
  proof (cases "0 < dx")
    case True
    then show ?thesis
      using s by (simp add: atan2_def hypot_scaled cos_arctan sin_arctan)
  next
    case False
    with \<open>dx \<noteq> 0\<close> have neg: "dx < 0" by simp
    then show ?thesis
      using s by (simp add: atan2_def hypot_scaled cos_arctan sin_arctan)
  qed
qed

lemma snapshots_append: "snapshots (xs @ ys) = snapshots xs @ snapshots ys"
  by (induction xs rule: snapshots.induct) simp_all

lemma snapshots_callPreventDefault: "snapshots (callPreventDefault opts) = []"
  by (simp add: callPreventDefault_def)

lemma snapshots_callSetPointerCapture: "snapshots (callSetPointerCapture opts e) = []"
  by (simp add: callSetPointerCapture_def)

lemma snapshots_callHandler: "snapshots (callHandler h snap) = [snap]"
  by (simp add: callHandler_def)

lemmas snapshots_simps = snapshots_append snapshots_callPreventDefault snapshots_callSetPointerCapture
  snapshots_callHandler

lemma computeMetrics_short:
  "length pts \<le> 1 \<Longrightarrow> distance (computeMetrics pts) = None \<and> angleRad (computeMetrics pts) = None"
  by (cases pts rule: computeMetrics.cases) simp_all

lemma emit_pointers: "pointers (fst (emit now ph m s)) = pointers s"
  by (simp add: emit_def Let_def)

lemma emit_active: "active (fst (emit now ph m s)) = active s"
  by (simp add: emit_def Let_def)

lemma emit_no_pinch:
  "distance m = None \<Longrightarrow> scale (snd (emit now ph m s)) = 1 \<and> rotationRad (snd (emit now ph m s)) = 0"
  by (auto simp: emit_def Let_def split: option.splits)

lemma length_assignPoint: "length (assignPoint k cx cy ps) = length ps"
  by (induction ps) auto

lemma length_map_delete: "map_has k ps \<Longrightarrow> Suc (length (map_delete k ps)) = length ps"
  by (induction ps) (auto split: if_splits)

lemma pointers_rebase: "pointers (rebase m s) = pointers s"
  by (simp add: rebase_def)

lemma pointers_resetGestureState: "pointers (resetGestureState s) = pointers s"
  by (simp add: resetGestureState_def)

lemmas pointers_simps = emit_pointers pointers_rebase pointers_resetGestureState length_assignPoint

section \<open>The geometry of zero, one and two contact points\<close>

text \<open>
  Claim C1. \<open>computeMetrics\<close> is a total function of the list of points alone. For no
  point the center is the origin, for one point the center is that point, and distance and
  angle are undefined in both cases. For two points \<open>a\<close> and \<open>b\<close> the center is their
  midpoint, the distance is the Euclidean norm of \<open>b - a\<close> and the angle is
  \<open>atan2 (b.y - a.y) (b.x - a.x)\<close>, which lies in \<open>(-\<pi>, \<pi>]\<close> and is, with the distance,
  the polar form of \<open>b - a\<close>. Of a longer list only the first two points count.
\<close>

theorem computeMetrics_geometry:
  "computeMetrics [] = \<lparr>center = \<lparr>x_coord = 0, y_coord = 0\<rparr>, distance = None, angleRad = None\<rparr>
   \<and> computeMetrics [p] = \<lparr>center = p, distance = None, angleRad = None\<rparr>
   \<and> computeMetrics [a, b] =
       \<lparr>center = \<lparr>x_coord = (x_coord a + x_coord b) / 2, y_coord = (y_coord a + y_coord b) / 2\<rparr>,
        distance = Some (sqrt ((x_coord b - x_coord a)\<^sup>2 + (y_coord b - y_coord a)\<^sup>2)),
        angleRad = Some (atan2 (y_coord b - y_coord a) (x_coord b - x_coord a))\<rparr>
   \<and> computeMetrics (a # b # rest) = computeMetrics [a, b]
   \<and> - pi < atan2 (y_coord b - y_coord a) (x_coord b - x_coord a)
   \<and> atan2 (y_coord b - y_coord a) (x_coord b - x_coord a) \<le> pi
   \<and> x_coord b - x_coord a =
       sqrt ((x_coord b - x_coord a)\<^sup>2 + (y_coord b - y_coord a)\<^sup>2)
         * cos (atan2 (y_coord b - y_coord a) (x_coord b - x_coord a))
   \<and> y_coord b - y_coord a =
       sqrt ((x_coord b - x_coord a)\<^sup>2 + (y_coord b - y_coord a)\<^sup>2)
         * sin (atan2 (y_coord b - y_coord a) (x_coord b - x_coord a))"
  using atan2_range [of "y_coord b - y_coord a" "x_coord b - x_coord a"]
    atan2_polar [of "x_coord b - x_coord a" "y_coord b - y_coord a"]
  by (simp add: Let_def hypot_eq_sqrt_squares)

section \<open>A single contact never pinches\<close>

lemma onPointerDown_single:
  assumes "length (pointers (fst (onPointerDown now h opts e s))) \<le> 1"
    and "snap \<in> set (snapshots (snd (onPointerDown now h opts e s)))"
  shows "scale snap = 1 \<and> rotationRad snap = 0"
  using assms
  by (auto simp: onPointerDown_def Let_def case_prod_beta snapshots_simps pointers_simps
      getActivePoints_def computeMetrics_short emit_no_pinch split: if_splits)

lemma onPointerMove_single:
  assumes "length (pointers s) \<le> 1"
    and "snap \<in> set (snapshots (snd (onPointerMove now h opts e s)))"
  shows "scale snap = 1 \<and> rotationRad snap = 0"
  using assms
  by (auto simp: onPointerMove_def Let_def case_prod_beta snapshots_simps pointers_simps
      getActivePoints_def computeMetrics_short emit_no_pinch split: if_splits option.splits)

lemma endLike_single:
  assumes "length (pointers s) \<le> 1"
    and "snap \<in> set (snapshots (snd (endLike now h opts ph e s)))"
  shows "scale snap = 1 \<and> rotationRad snap = 0"
proof (cases "map_has (pointerId e) (pointers s)")
  case False
  with assms show ?thesis by (simp add: endLike_def)
next
  case True
  from length_map_delete [OF True] assms(1) have "length (map_delete (pointerId e) (pointers s)) = 0"
    by linarith
  then have "map_delete (pointerId e) (pointers s) = []"
    by simp
  with True assms(2) show ?thesis
    by (auto simp: endLike_def Let_def case_prod_beta snapshots_simps pointers_simps
      getActivePoints_def emit_no_pinch split: if_splits)
qed

lemma dispatchEvent_single:
  assumes "length (pointers (gesture a)) \<le> 1"
    and "length (pointers (gesture (fst (dispatchEvent now n a)))) \<le> 1"
    and "snap \<in> set (snapshots (snd (dispatchEvent now n a)))"
  shows "scale snap = 1 \<and> rotationRad snap = 0"
proof (cases "fst n \<in> listeners (target a)")
  case False
  with assms show ?thesis by (simp add: dispatchEvent_def)
next
  case True
  show ?thesis
  proof (cases "fst n")
    case Pointerdown
    with True assms(2,3) show ?thesis
      using onPointerDown_single [of now "handlers a" "options a" "snd n" "gesture a" snap]
      by (simp add: dispatchEvent_def listenerOf_def case_prod_beta)
  next
    case Pointermove
    with True assms(1,3) show ?thesis
      using onPointerMove_single [of "gesture a" snap now "handlers a" "options a" "snd n"]
      by (simp add: dispatchEvent_def listenerOf_def case_prod_beta)
  next
    case Pointerup
    with True assms(1,3) show ?thesis
      using endLike_single [of "gesture a" snap now "handlers a" "options a" End "snd n"]
      by (simp add: dispatchEvent_def listenerOf_def case_prod_beta onPointerUp_def)
  next
    case Pointercancel
    with True assms(1,3) show ?thesis
      using endLike_single [of "gesture a" snap now "handlers a" "options a" Cancel "snd n"]
      by (simp add: dispatchEvent_def listenerOf_def case_prod_beta onPointerCancel_def)
  qed
qed

lemma atMostOneLive_head: "atMostOneLive now ns a \<Longrightarrow> length (pointers (gesture a)) \<le> 1"
  by (cases ns) simp_all

text \<open>
  Claim C2. Along a notification sequence that never has more than one contact in the
  registry, every snapshot that the recognizer emits has scale 1 and rotation 0. The
  attachment may be in any state with at most one contact, a fresh one included.
\<close>

theorem single_contact_scale_rotation:
  assumes "atMostOneLive now ns a" and "snap \<in> set (snapshots (snd (run now ns a)))"
  shows "scale snap = 1 \<and> rotationRad snap = 0"
  using assms
proof (induction ns arbitrary: a)
  case Nil
  then show ?case by simp
next
  case (Cons n ns)
  let ?a1 = "fst (dispatchEvent now n a)"
  from Cons.prems(1) have here: "length (pointers (gesture a)) \<le> 1"
    and rest: "atMostOneLive now ns ?a1" by simp_all
  from Cons.prems(2) consider
    (first) "snap \<in> set (snapshots (snd (dispatchEvent now n a)))"
    | (later) "snap \<in> set (snapshots (snd (run now ns ?a1)))"
    by (auto simp: case_prod_beta Let_def snapshots_append)
  then show ?case
  proof cases
    case first
    with here atMostOneLive_head [OF rest] show ?thesis by (rule dispatchEvent_single)
  next
    case later
    with rest show ?thesis by (rule Cons.IH)
  qed
qed

text \<open>
  A one-finger pan (down, move, up) on a fresh attachment: three snapshots, all with scale 1
  and rotation 0.
\<close>

theorem single_contact_scale_rotation_witness:
  "atMostOneLive tickClock panTrace freshAttachment
   \<and> map phase (snapshots (snd (run tickClock panTrace freshAttachment))) = [Start, Move, End]
   \<and> scale (snapshots (snd (run tickClock panTrace freshAttachment)) ! 1) = 1
   \<and> rotationRad (snapshots (snd (run tickClock panTrace freshAttachment)) ! 1) = 0"
proof -
  have live: "atMostOneLive tickClock panTrace freshAttachment"
    by (simp add: model_defs)
  have phases: "map phase (snapshots (snd (run tickClock panTrace freshAttachment))) = [Start, Move, End]"
    by (simp add: model_defs)
  then have "length (snapshots (snd (run tickClock panTrace freshAttachment))) = 3"
    by (metis length_map length_Cons list.size(3) numeral_3_eq_3)
  then have "snapshots (snd (run tickClock panTrace freshAttachment)) ! 1
      \<in> set (snapshots (snd (run tickClock panTrace freshAttachment)))"
    by simp
  from single_contact_scale_rotation [OF live this] live phases show ?thesis
    by simp
qed

section \<open>Releasing a contact while others remain\<close>

lemma map_has_get: "map_has k ps \<longleftrightarrow> map_get k ps \<noteq> None"
  by (induction ps) (auto split: if_splits)

lemma computeMetrics_both:
  "angleRad (computeMetrics pts) = None \<longleftrightarrow> distance (computeMetrics pts) = None"
  by (cases pts rule: computeMetrics.cases) (simp_all add: Let_def)

lemma map_get_assignPoint_same:
  "map_has k ps \<Longrightarrow> map_get k (assignPoint k cx cy ps) = Some \<lparr>x_coord = cx, y_coord = cy\<rparr>"
  by (induction ps) auto

lemma map_get_assignPoint_other:
  "k' \<noteq> k \<Longrightarrow> map_get k' (assignPoint k cx cy ps) = map_get k' ps"
  by (induction ps) auto

lemma keys_assignPoint: "map fst (assignPoint k cx cy ps) = map fst ps"
  by (induction ps) auto









section \<open>Moves while more than two contacts are down\<close>

lemma onPointerMove_crowded:
  assumes has: "map_has (pointerId e) (pointers s)" and many: "2 < length (pointers s)"
  shows "onPointerMove now h opts e s =
           (s\<lparr>pointers := assignPoint (pointerId e) (clientX e) (clientY e) (pointers s)\<rparr>,
            callPreventDefault opts)"
  using has many
  by (auto simp: onPointerMove_def Let_def map_has_get length_assignPoint split: option.splits)

text \<open>
  Claim C10. With more than two contacts in the registry, a pointermove of any tracked
  contact, the first two included, emits no snapshot: the listener only calls
  \<open>preventDefault\<close> (when enabled) and writes the new position into the registry entry of
  that contact. The entry keeps its place, and no other entry and no session field changes.
\<close>

theorem move_with_extra_contacts_is_silent:
  assumes "map_has (pointerId e) (pointers s)" and "2 < length (pointers s)"
  shows "snapshots (snd (onPointerMove now h opts e s)) = []
         \<and> snd (onPointerMove now h opts e s) = callPreventDefault opts
         \<and> fst (onPointerMove now h opts e s)
             = s\<lparr>pointers := assignPoint (pointerId e) (clientX e) (clientY e) (pointers s)\<rparr>
         \<and> map_get (pointerId e) (pointers (fst (onPointerMove now h opts e s)))
             = Some \<lparr>x_coord = clientX e, y_coord = clientY e\<rparr>
         \<and> map fst (pointers (fst (onPointerMove now h opts e s))) = map fst (pointers s)
         \<and> (\<forall>k. k \<noteq> pointerId e \<longrightarrow>
               map_get k (pointers (fst (onPointerMove now h opts e s))) = map_get k (pointers s))"
  using assms
  by (simp add: onPointerMove_crowded snapshots_callPreventDefault map_get_assignPoint_same
      map_get_assignPoint_other keys_assignPoint)

text \<open>
  Three touches are down and the first one, which defines the geometry, moves to \<open>(10, 10)\<close>:
  its stored position changes and nothing is emitted.
\<close>

theorem move_with_extra_contacts_is_silent_witness:
  "map_has (pointerId (touchAt 1 10 10)) (pointers (gesture (fst (run tickClock threeTrace freshAttachment))))
   \<and> 2 < length (pointers (gesture (fst (run tickClock threeTrace freshAttachment))))
   \<and> snapshots (snd (onPointerMove tickClock allHandlers defaultOptions (touchAt 1 10 10)
                        (gesture (fst (run tickClock threeTrace freshAttachment))))) = []
   \<and> pointers (fst (onPointerMove tickClock allHandlers defaultOptions (touchAt 1 10 10)
                        (gesture (fst (run tickClock threeTrace freshAttachment)))))
       = [(1, \<lparr>x_coord = 10, y_coord = 10\<rparr>), (2, \<lparr>x_coord = 100, y_coord = 0\<rparr>),
          (3, \<lparr>x_coord = 50, y_coord = 50\<rparr>)]"
proof -
  let ?s = "gesture (fst (run tickClock threeTrace freshAttachment))"
  have ps: "pointers ?s = [(1, \<lparr>x_coord = 0, y_coord = 0\<rparr>), (2, \<lparr>x_coord = 100, y_coord = 0\<rparr>),
                           (3, \<lparr>x_coord = 50, y_coord = 50\<rparr>)]"
    by (simp add: model_defs)
  have has: "map_has (pointerId (touchAt 1 10 10)) (pointers ?s)"
    by (simp add: ps touchAt_def)
  have many: "2 < length (pointers ?s)"
    by (simp add: ps)
  note silent = move_with_extra_contacts_is_silent [OF has many, of tickClock allHandlers defaultOptions]
  from silent have none: "snapshots (snd (onPointerMove tickClock allHandlers defaultOptions (touchAt 1 10 10) ?s)) = []"
    by (rule conjunct1)
  from silent have "fst (onPointerMove tickClock allHandlers defaultOptions (touchAt 1 10 10) ?s)
      = ?s\<lparr>pointers := assignPoint (pointerId (touchAt 1 10 10)) (clientX (touchAt 1 10 10))
                          (clientY (touchAt 1 10 10)) (pointers ?s)\<rparr>"
    by blast
  then have "pointers (fst (onPointerMove tickClock allHandlers defaultOptions (touchAt 1 10 10) ?s))
      = assignPoint 1 10 10 (pointers ?s)"
    by (simp add: touchAt_def)
  then have moved: "pointers (fst (onPointerMove tickClock allHandlers defaultOptions (touchAt 1 10 10) ?s))
      = [(1, \<lparr>x_coord = 10, y_coord = 10\<rparr>), (2, \<lparr>x_coord = 100, y_coord = 0\<rparr>),
         (3, \<lparr>x_coord = 50, y_coord = 50\<rparr>)]"
    by (simp add: ps)
  from has many none moved show ?thesis
    by blast
qed

section \<open>Scale\<close>

lemma computeMetrics_distance_nonneg: "distance (computeMetrics pts) = Some d \<Longrightarrow> 0 \<le> d"
  by (cases pts rule: computeMetrics.cases) (auto simp: Let_def hypot_nonneg)

text \<open>The anchor distance stays non-negative: at every call of \<open>emit\<close> and between notifications.\<close>

lemma anchorNonneg_emit:
  assumes "anchorNonneg s" and "\<And>d. distance m = Some d \<Longrightarrow> 0 \<le> d"
  shows "anchorNonneg (fst (emit now ph m s))"
  using assms by (auto simp: anchorNonneg_def emit_def Let_def split: option.splits)

lemma anchorNonneg_rebase: "anchorNonneg (rebase (computeMetrics pts) s)"
  by (auto simp: anchorNonneg_def rebase_def split: option.splits dest: computeMetrics_distance_nonneg)

lemma anchorNonneg_resetGestureState: "anchorNonneg (resetGestureState s)"
  by (simp add: anchorNonneg_def resetGestureState_def)

lemma anchorNonneg_pointers: "anchorNonneg (s\<lparr>pointers := ps\<rparr>) = anchorNonneg s"
  by (simp add: anchorNonneg_def)

lemma anchorNonneg_onPointerDown:
  "anchorNonneg s \<Longrightarrow> anchorNonneg (fst (onPointerDown now h opts e s))"
  by (auto simp: onPointerDown_def Let_def case_prod_beta anchorNonneg_resetGestureState
      anchorNonneg_pointers
      intro!: anchorNonneg_emit anchorNonneg_rebase computeMetrics_distance_nonneg)

lemma anchorNonneg_onPointerMove:
  "anchorNonneg s \<Longrightarrow> anchorNonneg (fst (onPointerMove now h opts e s))"
  by (auto simp: onPointerMove_def Let_def case_prod_beta anchorNonneg_pointers
      split: option.splits intro!: anchorNonneg_emit computeMetrics_distance_nonneg)

lemma anchorNonneg_endLike:
  "anchorNonneg s \<Longrightarrow> anchorNonneg (fst (endLike now h opts ph e s))"
  by (auto simp: endLike_def Let_def case_prod_beta anchorNonneg_resetGestureState
      anchorNonneg_pointers
      intro!: anchorNonneg_emit anchorNonneg_rebase computeMetrics_distance_nonneg)

lemma anchorNonneg_dispatchEvent:
  "anchorNonneg (gesture a) \<Longrightarrow> anchorNonneg (gesture (fst (dispatchEvent now n a)))"
  by (cases "fst n")
    (auto simp: dispatchEvent_def listenerOf_def case_prod_beta onPointerUp_def onPointerCancel_def
      intro: anchorNonneg_onPointerDown anchorNonneg_onPointerMove anchorNonneg_endLike)

lemma anchorNonneg_run:
  "anchorNonneg (gesture a) \<Longrightarrow> anchorNonneg (gesture (fst (run now ns a)))"
  by (induction ns arbitrary: a) (auto simp: case_prod_beta Let_def intro: anchorNonneg_dispatchEvent)

lemma anchorNonneg_attached: "anchorNonneg (gesture (attached t h opts))"
  by (simp add: anchorNonneg_def attached_def initialGestureState_def)

lemma anchorNonneg_reachable:
  "anchorNonneg (gesture (fst (run now ns (attached t h opts))))"
  by (rule anchorNonneg_run) (rule anchorNonneg_attached)

lemma emit_scale:
  "scale (snd (emit now ph m s)) =
     (case (distance m, gestureStartDistance (fst (emit now ph m s))) of
        (Some d, Some d0) \<Rightarrow> if 0 < d0 then d / d0 else 1
      | _ \<Rightarrow> 1)"
  by (auto simp: emit_def Let_def split: option.splits)

text \<open>
  Claim C3, as the claim states it, fails. Two touches are anchored at distance 100, the
  second moves until the distance is 200, and the first is lifted. When the end snapshot is
  emitted the anchor distance is still 100, defined and not zero, but there is no current
  pairwise distance: the snapshot carries no distance and its scale is 1, not a quotient by
  the anchor.
\<close>

theorem scale_ratio_counterexample:
  "gestureStartDistance (gesture (fst (run tickClock stretchTrace freshAttachment))) = Some 100
   \<and> map (\<lambda>snap. (phase snap, pinchDistance snap, scale snap))
       (snapshots (snd (dispatchEvent tickClock (Pointerup, touchAt 1 0 0)
                          (fst (run tickClock stretchTrace freshAttachment)))))
     = [(End, None, 1), (Start, None, 1)]"
  by (simp add: model_defs hypot_zero_right atan2_def)

text \<open>
  Claim C3, amended. On every emission the scale is the current pairwise distance divided
  by the anchor distance when the current distance is defined and the anchor distance is
  defined and not zero, and 1 otherwise. The anchor is the one the session holds when the
  scale is computed; it is never negative (\<open>anchorNonneg_reachable\<close>, \<open>anchorNonneg_rebase\<close>
  and \<open>anchorNonneg_emit\<close> for the states in which \<open>emit\<close> is called). Two contacts that begin at one point give the anchor 0 and scale 1,
  also after they move apart. With contacts anchored at \<open>(0, 0)\<close> and \<open>(100, 0)\<close>, moving
  the second to \<open>(200, 0)\<close> gives a move snapshot with distance 200 and scale 2.
\<close>

theorem scale_is_distance_ratio:
  assumes "anchorNonneg s"
  shows "scale (snd (emit now ph m s)) =
           (case (distance m, gestureStartDistance (fst (emit now ph m s))) of
              (Some d, Some d0) \<Rightarrow> if d0 \<noteq> 0 then d / d0 else 1
            | _ \<Rightarrow> 1)
         \<and> map (\<lambda>snap. (phase snap, pinchDistance snap, scale snap))
              (snapshots (snd (run tickClock stretchTrace freshAttachment)))
            = [(Start, None, 1), (Start, Some 100, 1), (Move, Some 200, 2)]
         \<and> map (\<lambda>snap. (phase snap, pinchDistance snap, scale snap))
              (snapshots (snd (run tickClock coincidentTrace freshAttachment)))
            = [(Start, None, 1), (Start, Some 0, 1), (Move, Some 3, 1)]"
proof -
  have general: "scale (snd (emit now ph m s)) =
           (case (distance m, gestureStartDistance (fst (emit now ph m s))) of
              (Some d, Some d0) \<Rightarrow> if d0 \<noteq> 0 then d / d0 else 1
            | _ \<Rightarrow> 1)"
    using assms by (auto simp: anchorNonneg_def emit_def Let_def split: option.splits)
  have stretch: "map (\<lambda>snap. (phase snap, pinchDistance snap, scale snap))
              (snapshots (snd (run tickClock stretchTrace freshAttachment)))
            = [(Start, None, 1), (Start, Some 100, 1), (Move, Some 200, 2)]"
    by (simp add: model_defs hypot_zero_right atan2_def)
  have coincident: "map (\<lambda>snap. (phase snap, pinchDistance snap, scale snap))
              (snapshots (snd (run tickClock coincidentTrace freshAttachment)))
            = [(Start, None, 1), (Start, Some 0, 1), (Move, Some 3, 1)]"
    by (simp add: model_defs hypot_zero_right atan2_def)
  from general stretch coincident show ?thesis by blast
qed

text \<open>
  The state after two touches at \<open>(0, 0)\<close> and \<open>(100, 0)\<close> has the anchor 100; a move emission
  with the contacts at \<open>(0, 0)\<close> and \<open>(200, 0)\<close> has scale 2.
\<close>

theorem scale_is_distance_ratio_witness:
  "anchorNonneg (gesture (fst (run tickClock pinchTrace freshAttachment)))
   \<and> scale (snd (emit tickClock Move
                   (computeMetrics [\<lparr>x_coord = 0, y_coord = 0\<rparr>, \<lparr>x_coord = 200, y_coord = 0\<rparr>])
                   (gesture (fst (run tickClock pinchTrace freshAttachment))))) = 2"
proof -
  let ?s = "gesture (fst (run tickClock pinchTrace freshAttachment))"
  define m where "m = computeMetrics [\<lparr>x_coord = 0, y_coord = 0\<rparr>, \<lparr>x_coord = 200, y_coord = 0\<rparr>]"
  have anchor: "gestureStartDistance ?s = Some 100"
    by (simp add: model_defs hypot_zero_right atan2_def)
  then have ok: "anchorNonneg ?s"
    by (simp add: anchorNonneg_def)
  have d: "distance m = Some 200"
    by (simp add: m_def Let_def hypot_zero_right)
  have after: "gestureStartDistance (fst (emit tickClock Move m ?s)) = Some 100"
    using anchor d by (simp add: emit_def Let_def)
  from scale_is_distance_ratio [OF ok, of tickClock Move m]
  have "scale (snd (emit tickClock Move m ?s)) =
           (case (distance m, gestureStartDistance (fst (emit tickClock Move m ?s))) of
              (Some d, Some d0) \<Rightarrow> if d0 \<noteq> 0 then d / d0 else 1
            | _ \<Rightarrow> 1)"
    by (rule conjunct1)
  then have "scale (snd (emit tickClock Move m ?s)) = 2"
    by (simp add: d after)
  with ok show ?thesis
    unfolding m_def by blast
qed

section \<open>Rotation\<close>

text \<open>
  Claim C5. On every emission the rotation is the current bearing angle minus the anchor
  angle when both are defined, and 0 otherwise; the anchor may be read before or after the
  emission, the value is the same. Nothing is normalised: with the first contact at
  \<open>(0, 0)\<close>, a second contact anchored at \<open>(100, 0)\<close> and moved to \<open>(0, 100)\<close> gives the
  rotation \<open>\<pi> / 2\<close>, and a second contact anchored at \<open>(-100, 0)\<close> (angle \<open>\<pi>\<close>) and moved to
  \<open>(0, -100)\<close> (angle \<open>-\<pi> / 2\<close>) gives the rotation \<open>-3\<pi> / 2\<close>, outside \<open>(-\<pi>, \<pi>]\<close>.
\<close>

theorem rotation_is_angle_difference:
  "rotationRad (snd (emit now ph (computeMetrics pts) s)) =
     (case (angleRad (computeMetrics pts),
            gestureStartAngleRad (fst (emit now ph (computeMetrics pts) s))) of
        (Some a, Some a0) \<Rightarrow> a - a0
      | _ \<Rightarrow> 0)
   \<and> rotationRad (snd (emit now ph (computeMetrics pts) s)) =
     (case (angleRad (computeMetrics pts), gestureStartAngleRad s) of
        (Some a, Some a0) \<Rightarrow> a - a0
      | _ \<Rightarrow> 0)
   \<and> map (\<lambda>snap. (phase snap, rotationRad snap))
        (snapshots (snd (run tickClock quarterTurnTrace freshAttachment)))
      = [(Start, 0), (Start, 0), (Move, pi / 2)]
   \<and> map (\<lambda>snap. (phase snap, rotationRad snap))
        (snapshots (snd (run tickClock wrapTrace freshAttachment)))
      = [(Start, 0), (Start, 0), (Move, - (3 * pi / 2))]"
proof -
  have post: "rotationRad (snd (emit now ph (computeMetrics pts) s)) =
     (case (angleRad (computeMetrics pts),
            gestureStartAngleRad (fst (emit now ph (computeMetrics pts) s))) of
        (Some a, Some a0) \<Rightarrow> a - a0
      | _ \<Rightarrow> 0)"
    using computeMetrics_both [of pts]
    by (auto simp: emit_def Let_def split: option.splits)
  have pre: "rotationRad (snd (emit now ph (computeMetrics pts) s)) =
     (case (angleRad (computeMetrics pts), gestureStartAngleRad s) of
        (Some a, Some a0) \<Rightarrow> a - a0
      | _ \<Rightarrow> 0)"
    using computeMetrics_both [of pts]
    by (auto simp: emit_def Let_def split: option.splits)
  have quarter: "map (\<lambda>snap. (phase snap, rotationRad snap))
        (snapshots (snd (run tickClock quarterTurnTrace freshAttachment)))
      = [(Start, 0), (Start, 0), (Move, pi / 2)]"
    by (simp add: model_defs hypot_def atan2_def)
  have wrap: "map (\<lambda>snap. (phase snap, rotationRad snap))
        (snapshots (snd (run tickClock wrapTrace freshAttachment)))
      = [(Start, 0), (Start, 0), (Move, - (3 * pi / 2))]"
    by (simp add: model_defs hypot_def atan2_def)
  from post pre quarter wrap show ?thesis by blast
qed

section \<open>Contacts of other input types\<close>

text \<open>
  Claim C7 does not hold of \<open>onPointerDown\<close>. The test of \<^verbatim>\<open>pointerType\<close> guards only the
  insertion into the registry; the listener then goes on as for a tracked contact. One touch
  is down and has moved from \<open>(0, 0)\<close> to \<open>(10, 0)\<close>; a pointerdown of unknown type arrives. The
  registry keeps its single entry, yet pointer capture is requested for the new contact, the
  session is re-anchored (anchor center from \<open>(0, 0)\<close> to \<open>(10, 0)\<close>, translation from
  \<open>(10, 0)\<close> to \<open>(0, 0)\<close>) and a start snapshot is emitted. On an idle recognizer the same
  notification emits nothing but switches \<open>active\<close> on. The move and end listeners return at
  once for a contact that is not in the registry.
\<close>

theorem untracked_pointerdown_restarts:
  "\<not> trackedType (pointerType unknownDown)
   \<and> pointers (gesture (fst (run tickClock panMoveTrace freshAttachment)))
       = [(1, \<lparr>x_coord = 10, y_coord = 0\<rparr>)]
   \<and> gestureStartCenter (gesture (fst (run tickClock panMoveTrace freshAttachment)))
       = Some \<lparr>x_coord = 0, y_coord = 0\<rparr>
   \<and> translation (gesture (fst (run tickClock panMoveTrace freshAttachment)))
       = \<lparr>x_coord = 10, y_coord = 0\<rparr>
   \<and> pointers (gesture (fst (dispatchEvent tickClock (Pointerdown, unknownDown)
                 (fst (run tickClock panMoveTrace freshAttachment)))))
       = [(1, \<lparr>x_coord = 10, y_coord = 0\<rparr>)]
   \<and> gestureStartCenter (gesture (fst (dispatchEvent tickClock (Pointerdown, unknownDown)
                 (fst (run tickClock panMoveTrace freshAttachment)))))
       = Some \<lparr>x_coord = 10, y_coord = 0\<rparr>
   \<and> translation (gesture (fst (dispatchEvent tickClock (Pointerdown, unknownDown)
                 (fst (run tickClock panMoveTrace freshAttachment)))))
       = \<lparr>x_coord = 0, y_coord = 0\<rparr>
   \<and> snd (dispatchEvent tickClock (Pointerdown, unknownDown)
            (fst (run tickClock panMoveTrace freshAttachment)))
       = [PreventDefault, SetPointerCapture 7,
          Emit \<lparr>phase = Start, pointers_snap = 1, center_snap = \<lparr>x_coord = 10, y_coord = 0\<rparr>,
                delta = \<lparr>x_coord = 0, y_coord = 0\<rparr>,
                translation_snap = \<lparr>x_coord = 0, y_coord = 0\<rparr>,
                pinchDistance = None, scale = 1, rotationRad = 0, timestamp = 2\<rparr>]
   \<and> \<not> active (gesture freshAttachment)
   \<and> active (gesture (fst (dispatchEvent tickClock (Pointerdown, unknownDown) freshAttachment)))
   \<and> snd (dispatchEvent tickClock (Pointerdown, unknownDown) freshAttachment)
       = [PreventDefault, SetPointerCapture 7]"
  by (simp add: model_defs)

section \<open>Detaching\<close>

lemma dispatchEvent_detached: "dispatchEvent now n (detach a) = (detach a, [])"
proof -
  have "fst n \<notin> listeners (target (detach a))"
    by (cases "fst n") (simp_all add: detach_def)
  then show ?thesis
    by (simp add: dispatchEvent_def)
qed

lemma run_detached: "run now ns (detach a) = (detach a, [])"
  by (induction ns) (simp_all add: dispatchEvent_detached)

lemma listeners_detach: "listeners (target (detach a)) = {}"
proof -
  have "k \<notin> listeners (target (detach a))" for k
    by (cases k) (simp_all add: detach_def)
  then show ?thesis by blast
qed

text \<open>
  Claim C8. The detach function removes the listeners of all four event types, empties the
  registry and resets the session: not active, no anchor, no last center, translation
  \<open>(0, 0)\<close>. It is a total function, and detaching again changes nothing. Whatever
  notifications the target receives after a detach, no listener runs: the attachment does
  not change, nothing is emitted and no handler is called.
\<close>

theorem detach_is_final:
  "listeners (target (detach a)) = {}
   \<and> pointers (gesture (detach a)) = []
   \<and> \<not> active (gesture (detach a))
   \<and> gestureStartCenter (gesture (detach a)) = None
   \<and> gestureStartDistance (gesture (detach a)) = None
   \<and> gestureStartAngleRad (gesture (detach a)) = None
   \<and> lastCenter (gesture (detach a)) = None
   \<and> translation (gesture (detach a)) = \<lparr>x_coord = 0, y_coord = 0\<rparr>
   \<and> detach (detach a) = detach a
   \<and> run now ns (detach a) = (detach a, [])
   \<and> handlerCalls (handlers a) (snd (run now ns (detach a))) = []"
proof -
  have state: "pointers (gesture (detach a)) = []
     \<and> \<not> active (gesture (detach a))
     \<and> gestureStartCenter (gesture (detach a)) = None
     \<and> gestureStartDistance (gesture (detach a)) = None
     \<and> gestureStartAngleRad (gesture (detach a)) = None
     \<and> lastCenter (gesture (detach a)) = None
     \<and> translation (gesture (detach a)) = \<lparr>x_coord = 0, y_coord = 0\<rparr>"
    by (simp add: detach_def resetGestureState_def)
  have twice: "detach (detach a) = detach a"
    by (simp add: detach_def resetGestureState_def)
  have calls: "handlerCalls (handlers a) (snd (run now ns (detach a))) = []"
    by (simp add: run_detached)
  from listeners_detach [of a] state twice run_detached [of now ns a] calls show ?thesis
    by blast
qed

section \<open>A missing target\<close>

text \<open>
  Claim C6, as the claim states it, fails: \<open>attachPinchPanGesture\<close> has no branch for a
  missing target. Its parameter type excludes one, and a call that passes none all the same
  ends in a \<^verbatim>\<open>TypeError\<close>, not in a detach function.
\<close>

theorem attach_missing_target_counterexample:
  "attachPinchPanGesture None allHandlers defaultOptions = Inl TypeError"
  by (simp add: attachPinchPanGesture_def)

text \<open>
  Claim C6, amended. The missing target is absorbed by the hook \<open>usePinchPanGesture\<close>: with
  an empty target reference its effect raises no error, attaches nothing and has no cleanup
  function. With a target it attaches, with handlers that forward to the caller's (for
  handlers that are all present and always return, they behave as those).
  \<open>attachPinchPanGesture\<close> with a present target raises
  no error: it sets the touch action to \<open>none\<close> unless one is set, registers the four
  listeners and starts from the idle state.
\<close>

theorem missing_target_is_skipped_by_hook:
  "usePinchPanGesture_effect None h opts = Inr None
   \<and> usePinchPanGesture_effect (Some t) h opts = Inr (Some (attached t (forwardingHandlers h) opts))
   \<and> forwardingHandlers allHandlers = allHandlers
   \<and> attachPinchPanGesture (Some t) h opts = Inr (attached t h opts)
   \<and> listeners (target (attached t h opts))
       = {Pointerdown, Pointermove, Pointerup, Pointercancel} \<union> listeners t
   \<and> touchAction (target (attached t h opts)) = (if touchAction t = [] then ''none'' else touchAction t)
   \<and> gesture (attached t h opts) = initialGestureState"
  by (auto simp: usePinchPanGesture_effect_def attachPinchPanGesture_def attached_def
      forwardingHandlers_def allHandlers_def)

section \<open>Replaying a notification sequence\<close>


lemma emit_snapshot_clock_free:
  "withoutTimestamp (snd (emit now ph m s)) = withoutTimestamp (snd (emit now' ph m s))"
  by (simp add: emit_def Let_def withoutTimestamp_def)




lemma snapshots_callHandler_clock_free:
  "map withoutTimestamp (snapshots (callHandler h (snd (emit now ph m s))))
   = map withoutTimestamp (snapshots (callHandler h' (snd (emit now' ph m s))))"
  using emit_snapshot_clock_free [of now ph m s now']
  by (simp add: snapshots_callHandler)



















end
